theory Spec2Isabelle
  imports Main
begin

section \<open>Data model\<close>

text \<open>
  Identifiers are MongoDB ObjectIds. The source compares them through
  \<^verbatim>\<open>a.toString() === b.toString()\<close>, which holds exactly when the two ids are the
  same 12-byte value, so an id is modelled as a number and the comparison as equality.
  The controllers validate every id that reaches the services (\<^verbatim>\<open>isMongoId\<close>), so
  \<^verbatim>\<open>new mongoose.Types.ObjectId(s)\<close> is the identity here. Dates are timestamps.
\<close>

type_synonym objectId = nat
type_synonym date = nat

text \<open>
  \<^verbatim>\<open>IProjectMember\<close> (models/Project.ts). The role is a string in the source: the
  methods take \<^verbatim>\<open>role: string\<close>, and the services pass admin, member or viewer
  (\<^verbatim>\<open>ProjectMemberData\<close>).
\<close>

record projectMember =
  userId :: objectId
  role :: string
  joinedAt :: date

text \<open>
  The project document (\<^verbatim>\<open>projectSchema\<close>), with the paths the services read and write.
  Columns, settings and the active flag take their defaults and are carried through
  untouched by every operation below; they are left out. A string of a document is the
  value the schema's setters (\<^verbatim>\<open>trim\<close>, \<^verbatim>\<open>uppercase\<close>) leave.
\<close>

record project =
  project_id :: objectId
  name :: string
  key :: string
  description :: "string option"
  ownerId :: objectId
  members :: "projectMember list"

section \<open>Project instance methods (models/Project.ts)\<close>

text \<open>\<^verbatim>\<open>this.members.some(member => member.userId.toString() === userId.toString())\<close>\<close>

definition isMember :: "project \<Rightarrow> objectId \<Rightarrow> bool" where
  "isMember p uid = list_ex (\<lambda>m. userId m = uid) (members p)"

text \<open>\<^verbatim>\<open>const member = this.members.find(...); return member ? member.role : null\<close>\<close>

definition getMemberRole :: "project \<Rightarrow> objectId \<Rightarrow> string option" where
  "getMemberRole p uid =
     (case find (\<lambda>m. userId m = uid) (members p) of
        None \<Rightarrow> None
      | Some m \<Rightarrow> Some (role m))"

text \<open>\<^verbatim>\<open>canManage\<close>: the owner reference is checked first, then the stored role.\<close>

definition canManage :: "project \<Rightarrow> objectId \<Rightarrow> bool" where
  "canManage p uid =
     (if ownerId p = uid then True
      else (case find (\<lambda>m. userId m = uid) (members p) of
              None \<Rightarrow> False
            | Some m \<Rightarrow> role m \<in> set [''owner'', ''admin'']))"

text \<open>
  \<^verbatim>\<open>existingMember.role = role\<close> assigns through the reference that \<^verbatim>\<open>find\<close> returned,
  which is the first entry of the array with that user id: the array is rewritten at that
  index and nowhere else.
\<close>

primrec setFirstRole :: "objectId \<Rightarrow> string \<Rightarrow> projectMember list \<Rightarrow> projectMember list" where
  "setFirstRole uid r [] = []"
| "setFirstRole uid r (m # ms) =
     (if userId m = uid then m\<lparr>role := r\<rparr> # ms else m # setFirstRole uid r ms)"

text \<open>\<^verbatim>\<open>addMember\<close>; \<open>now\<close> is the value of \<^verbatim>\<open>new Date()\<close>.\<close>

definition addMember :: "project \<Rightarrow> objectId \<Rightarrow> string \<Rightarrow> date \<Rightarrow> project" where
  "addMember p uid r now =
     (case find (\<lambda>m. userId m = uid) (members p) of
        Some existingMember \<Rightarrow> p\<lparr>members := setFirstRole uid r (members p)\<rparr>
      | None \<Rightarrow> p\<lparr>members := members p @ [\<lparr>userId = uid, role = r, joinedAt = now\<rparr>]\<rparr>)"

text \<open>\<^verbatim>\<open>this.members = this.members.filter(member => member.userId ... !== userId ...)\<close>\<close>

definition removeMember :: "project \<Rightarrow> objectId \<Rightarrow> project" where
  "removeMember p uid = p\<lparr>members := filter (\<lambda>m. userId m \<noteq> uid) (members p)\<rparr>"

text \<open>The entries of the member list that belong to a user.\<close>

definition entriesOf :: "project \<Rightarrow> objectId \<Rightarrow> projectMember list" where
  "entriesOf p uid = filter (\<lambda>m. userId m = uid) (members p)"

text \<open>The data model's invariant: at most one member entry per user id.\<close>

definition uniqueMembers :: "project \<Rightarrow> bool" where
  "uniqueMembers p = distinct (map userId (members p))"

section \<open>Permission model\<close>

datatype capability = canEdit | canDelete | canInvite | canManageTasks

text \<open>
  Modelled from the spec: the role-capability table of section 4.1. No file of the
  repository declares the table; the services only call
  \<^verbatim>\<open>project.hasPermission(userId, 'canEdit')\<close> and its siblings. A role outside the
  table has no capability (section 7: unknown role means deny).
\<close>

definition roleCapabilities :: "string \<Rightarrow> capability list" where
  "roleCapabilities r =
     (if r = ''owner'' then [canEdit, canDelete, canInvite, canManageTasks]
      else if r = ''admin'' then [canEdit, canInvite, canManageTasks]
      else if r = ''member'' then [canManageTasks]
      else [])"

text \<open>
  Modelled from the spec: \<^verbatim>\<open>hasPermission\<close>, called by the services and missing from
  models/Project.ts. It looks the role up through \<^verbatim>\<open>getMemberRole\<close> (the method of the
  source) and consults the table; no role means no permission.
\<close>

definition hasPermission :: "project \<Rightarrow> objectId \<Rightarrow> capability \<Rightarrow> bool" where
  "hasPermission p uid c =
     (case getMemberRole p uid of
        None \<Rightarrow> False
      | Some r \<Rightarrow> c \<in> set (roleCapabilities r))"

text \<open>
  Modelled from the spec: the model method \<^verbatim>\<open>updateMemberRole\<close>, called by
  \<^verbatim>\<open>ProjectService.updateMemberRole\<close> and missing from models/Project.ts: the role of
  the user's entry is replaced in place, and nothing happens when the user has no entry.
\<close>

definition updateMemberRole :: "project \<Rightarrow> objectId \<Rightarrow> string \<Rightarrow> project" where
  "updateMemberRole p uid newRole =
     (case find (\<lambda>m. userId m = uid) (members p) of
        None \<Rightarrow> p
      | Some member \<Rightarrow> p\<lparr>members := setFirstRole uid newRole (members p)\<rparr>)"

section \<open>Documents and collections\<close>

text \<open>
  The task document (\<^verbatim>\<open>taskSchema\<close> of models/Task.ts). The schema is strict: a
  document holds the paths the schema declares and no other. It declares \<^verbatim>\<open>order\<close>
  and a required \<^verbatim>\<open>creatorId\<close>; it declares neither \<^verbatim>\<open>position\<close> nor
  \<^verbatim>\<open>createdById\<close>, the names services/taskService.ts uses. The creator is optional
  here so that a document built without one can be written down. Description, labels,
  due date, attachments and watchers take no part in any check below and are left out.
\<close>

record task =
  task_id :: objectId
  projectId :: objectId
  title :: string
  status :: string
  priority :: string
  assigneeId :: "objectId option"
  creatorId :: "objectId option"
  order :: int
  isArchived :: bool

text \<open>
  A JavaScript number that holds an integer, or NaN. \<^verbatim>\<open>undefined + 1\<close> is NaN.
\<close>

datatype number = Number int | NaN

text \<open>
  A task document in memory: the paths of the schema, and the property \<^verbatim>\<open>position\<close>
  that the service reads from and assigns to the object. It is no path of the schema, so
  it is undefined on a document that was loaded (\<open>None\<close>), and \<^verbatim>\<open>save()\<close> does not
  write it.
\<close>

record taskDocument =
  paths :: task
  position :: "number option"

definition asDocument :: "task \<Rightarrow> taskDocument" where
  "asDocument t = \<lparr>paths = t, position = None\<rparr>"

record activityLog =
  action :: string
  entityId :: objectId
  log_userId :: objectId
  log_projectId :: objectId

text \<open>
  The persistence collaborator: one list of documents per collection, in insertion order;
  of a user only the id matters here. A service call takes the database and returns
  either the error it throws or its result with the database it leaves behind. Every
  \<^verbatim>\<open>throw\<close> of the services comes before the first write of the call.
\<close>

record db =
  users :: "objectId list"
  projects :: "project list"
  tasks :: "task list"
  activityLogs :: "activityLog list"

text \<open>
  The error codes of \<^verbatim>\<open>createError\<close>, and the three failures that reach the services
  from below: a document that fails the validation of its schema at \<^verbatim>\<open>save()\<close>, a
  unique index that rejects an insert (E11000), and a TypeError of the runtime.
\<close>

datatype error =
    PROJECT_NOT_FOUND
  | TASK_NOT_FOUND
  | ACCESS_DENIED
  | INSUFFICIENT_PERMISSIONS
  | INVALID_ASSIGNEE
  | DUPLICATE_KEY
  | VALIDATION_ERROR
  | TYPE_ERROR

definition Project_findById :: "db \<Rightarrow> objectId \<Rightarrow> project option" where
  "Project_findById d pid = find (\<lambda>p. project_id p = pid) (projects d)"

definition Task_findById :: "db \<Rightarrow> objectId \<Rightarrow> task option" where
  "Task_findById d tid = find (\<lambda>t. task_id t = tid) (tasks d)"

text \<open>
  \<^verbatim>\<open>doc.save()\<close> on a loaded document updates the one stored document with its
  \<^verbatim>\<open>_id\<close>: the first that matches, and none when the collection has no such document.
  It writes the paths of the schema. The validation that \<^verbatim>\<open>save()\<close> runs first is
  modelled for a new project and for tasks (below), and not for a project that was loaded.
\<close>

primrec replaceFirst :: "('a \<Rightarrow> bool) \<Rightarrow> 'a \<Rightarrow> 'a list \<Rightarrow> 'a list" where
  "replaceFirst P y [] = []"
| "replaceFirst P y (x # xs) = (if P x then y # xs else x # replaceFirst P y xs)"

definition Project_save :: "db \<Rightarrow> project \<Rightarrow> db" where
  "Project_save d p =
     d\<lparr>projects := replaceFirst (\<lambda>q. project_id q = project_id p) p (projects d)\<rparr>"

definition Task_save :: "db \<Rightarrow> taskDocument \<Rightarrow> db" where
  "Task_save d doc =
     d\<lparr>tasks := replaceFirst (\<lambda>q. task_id q = task_id (paths doc)) (paths doc) (tasks d)\<rparr>"

text \<open>
  The validation that \<^verbatim>\<open>save()\<close> runs on a task before it writes: the required paths
  are present (a required string is not empty), the title has at most 200 characters and
  the priority is one of the schema's four values.
\<close>

definition Task_validate :: "task \<Rightarrow> bool" where
  "Task_validate t \<longleftrightarrow>
     title t \<noteq> [] \<and> length (title t) \<le> 200 \<and> status t \<noteq> []
     \<and> priority t \<in> set [''Low'', ''Medium'', ''High'', ''Critical'']
     \<and> creatorId t \<noteq> None"

text \<open>
  Modelled from the spec: \<^verbatim>\<open>ActivityLog.logActivity\<close>, which no file of the repository
  defines: one entry is appended to an append-only log.
\<close>

definition logActivity :: "db \<Rightarrow> activityLog \<Rightarrow> db" where
  "logActivity d e = d\<lparr>activityLogs := activityLogs d @ [e]\<rparr>"

text \<open>
  \<^verbatim>\<open>Task.findOne({ projectId }).sort({ position: -1 }).select('position')\<close>. No stored
  task has a \<^verbatim>\<open>position\<close>, so the sort key is missing in every document of the
  project and the sort leaves them as the collection has them; the query returns the first,
  if there is one. Which one it is makes no difference: the service reads
  \<^verbatim>\<open>position\<close> from it and nothing else.
\<close>

definition Task_findOne_sortedByPosition :: "db \<Rightarrow> objectId \<Rightarrow> task option" where
  "Task_findOne_sortedByPosition d pid =
     (case filter (\<lambda>t. projectId t = pid) (tasks d) of
        [] \<Rightarrow> None
      | t # ts \<Rightarrow> Some t)"

section \<open>services/projectService.ts\<close>

text \<open>
  The request of \<^verbatim>\<open>createProject\<close>. \<^verbatim>\<open>CreateProjectData\<close> has no key, and the
  schema requires one: a request that can succeed carries it as a further property of the
  body, which the controller passes on as it came. Other further properties are not
  modelled.
\<close>

record createProjectData =
  cp_name :: string
  cp_key :: "string option"
  cp_description :: "string option"

record updateProjectData =
  up_name :: "string option"
  up_description :: "string option"

record projectMemberData =
  md_userId :: objectId
  md_role :: string

text \<open>
  \<^verbatim>\<open>new Project({ ...data, ownerId })\<close>: the member list is not among the fields of the
  request and takes the schema's default, the empty array. \<^verbatim>\<open>project.save()\<close> first
  validates: name and key are required, and a required string is not empty. Then it
  inserts: \<open>newId\<close> is the \<^verbatim>\<open>_id\<close> the driver generates, and the unique indexes on
  \<^verbatim>\<open>_id\<close> and on \<^verbatim>\<open>key\<close> reject a second document with the same value. The
  activity entry names the project's id as the user, as the source does.
\<close>

definition ProjectService_createProject ::
  "db \<Rightarrow> objectId \<Rightarrow> createProjectData \<Rightarrow> objectId \<Rightarrow> error + (project \<times> db)" where
  "ProjectService_createProject d newId data owner =
     (case cp_key data of
        None \<Rightarrow> Inl VALIDATION_ERROR
      | Some k \<Rightarrow>
          let project = \<lparr>project_id = newId, name = cp_name data, key = k,
                          description = cp_description data, ownerId = owner, members = []\<rparr>
          in if name project = [] \<or> key project = [] then Inl VALIDATION_ERROR
             else if Project_findById d newId \<noteq> None then Inl DUPLICATE_KEY
             else if list_ex (\<lambda>q. key q = key project) (projects d) then Inl DUPLICATE_KEY
             else Inr (project,
                       logActivity (d\<lparr>projects := projects d @ [project]\<rparr>)
                         \<lparr>action = ''project.created'', entityId = newId,
                          log_userId = newId, log_projectId = newId\<rparr>))"

text \<open>
  \<^verbatim>\<open>project.isMember(userId)\<close> on the document that \<^verbatim>\<open>getProjectById\<close> loads with
  \<^verbatim>\<open>.populate('members.userId', ...)\<close>. Population replaces the \<^verbatim>\<open>userId\<close> of every
  member by the user document, or by null when no user has that id. The callback of
  \<^verbatim>\<open>some\<close> then calls \<^verbatim>\<open>toString()\<close> on it: on null this is a TypeError; on a user
  document it is the printed document, which is never the 24 hexadecimal digits of an
  id, so no entry matches and \<^verbatim>\<open>some\<close> visits every entry.
\<close>

definition isMember_populated :: "objectId list \<Rightarrow> project \<Rightarrow> objectId \<Rightarrow> error + bool" where
  "isMember_populated us p uid =
     (if list_all (\<lambda>m. userId m \<in> set us) (members p) then Inr False else Inl TYPE_ERROR)"

text \<open>
  \<^verbatim>\<open>getProjectById\<close>. The population of the owner reference is used by the response
  only.
\<close>

definition ProjectService_getProjectById :: "db \<Rightarrow> objectId \<Rightarrow> objectId \<Rightarrow> error + project" where
  "ProjectService_getProjectById d pid uid =
     (case Project_findById d pid of
        None \<Rightarrow> Inl PROJECT_NOT_FOUND
      | Some project \<Rightarrow>
          (case isMember_populated (users d) project uid of
             Inl e \<Rightarrow> Inl e
           | Inr member \<Rightarrow> if \<not> member then Inl ACCESS_DENIED else Inr project))"

text \<open>\<^verbatim>\<open>Object.assign(project, data)\<close>: a field that is present in the data overwrites.\<close>

definition assignProject :: "project \<Rightarrow> updateProjectData \<Rightarrow> project" where
  "assignProject p data =
     p\<lparr>name := (case up_name data of None \<Rightarrow> name p | Some n \<Rightarrow> n),
       description := (case up_description data of None \<Rightarrow> description p | Some x \<Rightarrow> Some x)\<rparr>"

definition ProjectService_updateProject ::
  "db \<Rightarrow> objectId \<Rightarrow> updateProjectData \<Rightarrow> objectId \<Rightarrow> error + (project \<times> db)" where
  "ProjectService_updateProject d pid data uid =
     (case Project_findById d pid of
        None \<Rightarrow> Inl PROJECT_NOT_FOUND
      | Some project \<Rightarrow>
          if \<not> hasPermission project uid canEdit then Inl INSUFFICIENT_PERMISSIONS
          else let project' = assignProject project data
               in Inr (project',
                       logActivity (Project_save d project')
                         \<lparr>action = ''project.updated'', entityId = project_id project',
                          log_userId = uid, log_projectId = project_id project'\<rparr>))"

definition ProjectService_deleteProject :: "db \<Rightarrow> objectId \<Rightarrow> objectId \<Rightarrow> error + db" where
  "ProjectService_deleteProject d pid uid =
     (case Project_findById d pid of
        None \<Rightarrow> Inl PROJECT_NOT_FOUND
      | Some project \<Rightarrow>
          if \<not> hasPermission project uid canDelete then Inl INSUFFICIENT_PERMISSIONS
          else let d1 = logActivity d
                          \<lparr>action = ''project.deleted'', entityId = project_id project,
                           log_userId = uid, log_projectId = project_id project\<rparr>
               in Inr (d1\<lparr>projects := filter (\<lambda>q. project_id q \<noteq> pid) (projects d1)\<rparr>))"

definition ProjectService_addMember ::
  "db \<Rightarrow> objectId \<Rightarrow> projectMemberData \<Rightarrow> objectId \<Rightarrow> date \<Rightarrow> error + db" where
  "ProjectService_addMember d pid memberData uid now =
     (case Project_findById d pid of
        None \<Rightarrow> Inl PROJECT_NOT_FOUND
      | Some project \<Rightarrow>
          if \<not> hasPermission project uid canInvite then Inl INSUFFICIENT_PERMISSIONS
          else let project' = addMember project (md_userId memberData) (md_role memberData) now
               in Inr (logActivity (Project_save d project')
                         \<lparr>action = ''project.member_added'', entityId = project_id project',
                          log_userId = uid, log_projectId = project_id project'\<rparr>))"

definition ProjectService_removeMember ::
  "db \<Rightarrow> objectId \<Rightarrow> objectId \<Rightarrow> objectId \<Rightarrow> error + db" where
  "ProjectService_removeMember d pid memberUserId uid =
     (case Project_findById d pid of
        None \<Rightarrow> Inl PROJECT_NOT_FOUND
      | Some project \<Rightarrow>
          if \<not> hasPermission project uid canInvite then Inl INSUFFICIENT_PERMISSIONS
          else let project' = removeMember project memberUserId
               in Inr (logActivity (Project_save d project')
                         \<lparr>action = ''project.member_removed'', entityId = project_id project',
                          log_userId = uid, log_projectId = project_id project'\<rparr>))"

definition ProjectService_updateMemberRole ::
  "db \<Rightarrow> objectId \<Rightarrow> objectId \<Rightarrow> string \<Rightarrow> objectId \<Rightarrow> error + db" where
  "ProjectService_updateMemberRole d pid memberUserId newRole uid =
     (case Project_findById d pid of
        None \<Rightarrow> Inl PROJECT_NOT_FOUND
      | Some project \<Rightarrow>
          if \<not> hasPermission project uid canInvite then Inl INSUFFICIENT_PERMISSIONS
          else let project' = updateMemberRole project memberUserId newRole
               in Inr (logActivity (Project_save d project')
                         \<lparr>action = ''project.member_role_changed'',
                          entityId = project_id project',
                          log_userId = uid, log_projectId = project_id project'\<rparr>))"

section \<open>services/taskService.ts\<close>

text \<open>
  The request of \<^verbatim>\<open>createTask\<close>, with the fields its checks read. The optional fields
  of \<^verbatim>\<open>CreateTaskData\<close> are left out; none of them sets the creator.
\<close>

record createTaskData =
  ct_title :: string
  ct_projectId :: objectId
  ct_assigneeId :: "objectId option"

text \<open>
  \<^verbatim>\<open>const nextPosition = lastTask ? lastTask.position + 1 : 0\<close>. \<^verbatim>\<open>position\<close> is
  no path of the schema, so on the document that the query returns the property is
  undefined, and \<^verbatim>\<open>undefined + 1\<close> is NaN.
\<close>

definition nextPosition :: "db \<Rightarrow> objectId \<Rightarrow> number" where
  "nextPosition d pid =
     (case Task_findOne_sortedByPosition d pid of
        None \<Rightarrow> Number 0
      | Some lastTask \<Rightarrow> NaN)"

text \<open>
  \<^verbatim>\<open>new Task({ ...data, projectId, assigneeId, createdById, position })\<close>: the strict
  schema keeps its own paths and drops \<^verbatim>\<open>createdById\<close> and \<^verbatim>\<open>position\<close>, neither of
  which is one. Status, priority and order take their defaults and the creator stays
  unset. \<open>newId\<close> is the generated \<^verbatim>\<open>_id\<close>.
\<close>

definition Task_new ::
  "objectId \<Rightarrow> createTaskData \<Rightarrow> objectId \<Rightarrow> number \<Rightarrow> taskDocument" where
  "Task_new newId data createdById position' =
     asDocument \<lparr>task_id = newId, projectId = ct_projectId data, title = ct_title data,
              status = ''backlog'', priority = ''Medium'', assigneeId = ct_assigneeId data,
              creatorId = None, order = 0, isArchived = False\<rparr>"

text \<open>\<^verbatim>\<open>createTask\<close>. \<^verbatim>\<open>task.save()\<close> validates before it inserts.\<close>

definition TaskService_createTask ::
  "db \<Rightarrow> objectId \<Rightarrow> createTaskData \<Rightarrow> objectId \<Rightarrow> error + (task \<times> db)" where
  "TaskService_createTask d newId data creator =
     (case Project_findById d (ct_projectId data) of
        None \<Rightarrow> Inl PROJECT_NOT_FOUND
      | Some project \<Rightarrow>
          if \<not> isMember project creator then Inl ACCESS_DENIED
          else if (case ct_assigneeId data of
                     None \<Rightarrow> False
                   | Some a \<Rightarrow> \<not> isMember project a) then Inl INVALID_ASSIGNEE
          else let task = Task_new newId data creator (nextPosition d (ct_projectId data))
               in if \<not> Task_validate (paths task) then Inl VALIDATION_ERROR
                  else if Task_findById d newId \<noteq> None then Inl DUPLICATE_KEY
                  else Inr (paths task,
                            logActivity (d\<lparr>tasks := tasks d @ [paths task]\<rparr>)
                              \<lparr>action = ''task.created'', entityId = newId,
                               log_userId = creator, log_projectId = ct_projectId data\<rparr>))"


text \<open>
  \<^verbatim>\<open>updateTaskPosition\<close>. \<^verbatim>\<open>task.position = newPosition\<close> assigns the property of the
  object; \<^verbatim>\<open>task.save()\<close> validates the document and writes its paths back.
\<close>

definition TaskService_updateTaskPosition ::
  "db \<Rightarrow> objectId \<Rightarrow> int \<Rightarrow> objectId \<Rightarrow> error + db" where
  "TaskService_updateTaskPosition d tid newPosition uid =
     (case Task_findById d tid of
        None \<Rightarrow> Inl TASK_NOT_FOUND
      | Some t \<Rightarrow>
          (case Project_findById d (projectId t) of
             None \<Rightarrow> Inl ACCESS_DENIED
           | Some project \<Rightarrow>
               if \<not> isMember project uid then Inl ACCESS_DENIED
               else let task = (asDocument t)\<lparr>position := Some (Number newPosition)\<rparr>
                    in if \<not> Task_validate (paths task) then Inl VALIDATION_ERROR
                       else Inr (logActivity (Task_save d task)
                                   \<lparr>action = ''task.position_changed'',
                                    entityId = task_id (paths task), log_userId = uid,
                                    log_projectId = projectId (paths task)\<rparr>)))"

section \<open>Example data\<close>

text \<open>
  The request of user 7 for a project, the project that \<^verbatim>\<open>createProject\<close> stores for
  it, and a project whose owner has no entry in the member list, with user 2 as a member.
\<close>

definition dataNew :: createProjectData where
  "dataNew = \<lparr>cp_name = ''Apollo'', cp_key = Some ''APOLLO'', cp_description = None\<rparr>"

definition projectNew :: project where
  "projectNew = \<lparr>project_id = 1, name = ''Apollo'', key = ''APOLLO'', description = None,
                 ownerId = 7, members = []\<rparr>"

definition project0 :: project where
  "project0 = \<lparr>project_id = 1, name = ''Apollo'', key = ''APOLLO'', description = None,
               ownerId = 7, members = [\<lparr>userId = 2, role = ''member'', joinedAt = 5\<rparr>]\<rparr>"

text \<open>
  A project with one member of each role, and three of its tasks in different columns,
  one of them archived, in the order 0, 2 and 1.
\<close>

definition projectA :: project where
  "projectA = \<lparr>project_id = 10, name = ''Board'', key = ''BOARD'', description = None,
               ownerId = 7,
               members = [\<lparr>userId = 7, role = ''owner'', joinedAt = 1\<rparr>,
                          \<lparr>userId = 2, role = ''admin'', joinedAt = 2\<rparr>,
                          \<lparr>userId = 3, role = ''member'', joinedAt = 3\<rparr>,
                          \<lparr>userId = 4, role = ''viewer'', joinedAt = 4\<rparr>]\<rparr>"

definition taskA :: task where
  "taskA = \<lparr>task_id = 100, projectId = 10, title = ''A'', status = ''backlog'',
            priority = ''Medium'', assigneeId = Some 3, creatorId = Some 2, order = 0,
            isArchived = False\<rparr>"

definition taskB :: task where
  "taskB = \<lparr>task_id = 101, projectId = 10, title = ''B'', status = ''done'',
            priority = ''High'', assigneeId = None, creatorId = Some 3, order = 2,
            isArchived = False\<rparr>"

definition taskC :: task where
  "taskC = \<lparr>task_id = 102, projectId = 10, title = ''C'', status = ''review'',
            priority = ''Low'', assigneeId = None, creatorId = Some 3, order = 1,
            isArchived = True\<rparr>"

definition dbA :: db where
  "dbA = \<lparr>users = [2, 3, 4, 7, 9], projects = [projectA], tasks = [taskA, taskB, taskC],
          activityLogs = []\<rparr>"

text \<open>A database with user 7 and nothing else.\<close>

definition dbEmpty :: db where
  "dbEmpty = \<lparr>users = [7], projects = [], tasks = [], activityLogs = []\<rparr>"

text \<open>
  A project whose members have the roles the schema admits, with three tasks in the order
  0, 1 and 2, a request of \<^verbatim>\<open>createTask\<close> in it, and requests on a project. User 9
  is neither its owner nor one of its members.
\<close>

definition projectB :: project where
  "projectB = \<lparr>project_id = 20, name = ''Sprint'', key = ''SPRINT'', description = None,
               ownerId = 7,
               members = [\<lparr>userId = 7, role = ''owner'', joinedAt = 1\<rparr>,
                          \<lparr>userId = 2, role = ''admin'', joinedAt = 2\<rparr>,
                          \<lparr>userId = 3, role = ''member'', joinedAt = 3\<rparr>]\<rparr>"

definition taskE :: task where
  "taskE = \<lparr>task_id = 200, projectId = 20, title = ''E'', status = ''backlog'',
            priority = ''Medium'', assigneeId = None, creatorId = Some 2, order = 0,
            isArchived = False\<rparr>"

definition taskF :: task where
  "taskF = \<lparr>task_id = 201, projectId = 20, title = ''F'', status = ''backlog'',
            priority = ''Medium'', assigneeId = Some 3, creatorId = Some 2, order = 1,
            isArchived = False\<rparr>"

definition taskG :: task where
  "taskG = \<lparr>task_id = 202, projectId = 20, title = ''G'', status = ''done'',
            priority = ''High'', assigneeId = None, creatorId = Some 3, order = 2,
            isArchived = False\<rparr>"

definition dbB :: db where
  "dbB = \<lparr>users = [2, 3, 7, 9], projects = [projectB], tasks = [taskE, taskF, taskG],
          activityLogs = []\<rparr>"

definition dataH :: createTaskData where
  "dataH = \<lparr>ct_title = ''H'', ct_projectId = 20, ct_assigneeId = None\<rparr>"



section \<open>Facts about the member list\<close>

lemma isMember_iff: "isMember p uid \<longleftrightarrow> uid \<in> userId ` set (members p)"
  by (auto simp: isMember_def list_ex_iff)

lemma find_userId_None: "find (\<lambda>m. userId m = uid) ms = None \<longleftrightarrow> uid \<notin> userId ` set ms"
  by (auto simp: find_None_iff)

lemma getMemberRole_None_iff: "getMemberRole p uid = None \<longleftrightarrow> \<not> isMember p uid"
  by (simp add: getMemberRole_def isMember_iff find_userId_None [symmetric] split: option.split)

lemma canManage_owner: "canManage p (ownerId p)"
  by (simp add: canManage_def)

lemma map_userId_setFirstRole: "map userId (setFirstRole uid r ms) = map userId ms"
  by (induction ms) auto

lemma setFirstRole_idem: "setFirstRole uid r (setFirstRole uid r ms) = setFirstRole uid r ms"
  by (induction ms) auto

lemma filter_setFirstRole_distinct:
  "distinct (map userId ms) \<Longrightarrow> uid \<in> userId ` set ms \<Longrightarrow>
   \<exists>m. filter (\<lambda>m. userId m = uid) (setFirstRole uid r ms) = [m] \<and> role m = r"
proof (induction ms)
  case Nil
  then show ?case by simp
next
  case (Cons a ms)
  show ?case
  proof (cases "userId a = uid")
    case True
    with Cons.prems have "uid \<notin> userId ` set ms" by auto
    then have "filter (\<lambda>m. userId m = uid) ms = []"
      by (auto simp: filter_empty_conv)
    with True show ?thesis by simp
  next
    case False
    with Cons show ?thesis by auto
  qed
qed

lemma addMember_present:
  "isMember p uid \<Longrightarrow> addMember p uid r now = p\<lparr>members := setFirstRole uid r (members p)\<rparr>"
  by (cases "find (\<lambda>m. userId m = uid) (members p)")
     (auto simp: addMember_def isMember_iff find_userId_None)

lemma addMember_absent:
  "\<not> isMember p uid \<Longrightarrow>
   addMember p uid r now = p\<lparr>members := members p @ [\<lparr>userId = uid, role = r, joinedAt = now\<rparr>]\<rparr>"
  by (cases "find (\<lambda>m. userId m = uid) (members p)")
     (auto simp: addMember_def isMember_iff find_userId_None [symmetric])

lemma userIds_setFirstRole: "userId ` set (setFirstRole uid r ms) = userId ` set ms"
proof -
  have "set (map userId (setFirstRole uid r ms)) = set (map userId ms)"
    by (simp only: map_userId_setFirstRole)
  then show ?thesis by simp
qed

lemma setFirstRole_append_new:
  "uid \<notin> userId ` set ms \<Longrightarrow>
   setFirstRole uid r (ms @ [\<lparr>userId = uid, role = r, joinedAt = t\<rparr>]) =
     ms @ [\<lparr>userId = uid, role = r, joinedAt = t\<rparr>]"
  by (induction ms) auto

lemma isMember_addMember: "isMember (addMember p uid r now) uid"
  by (cases "isMember p uid")
     (simp_all add: addMember_present addMember_absent isMember_iff userIds_setFirstRole)

lemma addMember_twice:
  "addMember (addMember p uid r t1) uid r t2 = addMember p uid r t1"
proof -
  have "addMember (addMember p uid r t1) uid r t2 =
        (addMember p uid r t1)\<lparr>members := setFirstRole uid r (members (addMember p uid r t1))\<rparr>"
    by (rule addMember_present) (rule isMember_addMember)
  also have "\<dots> = addMember p uid r t1"
  proof (cases "isMember p uid")
    case True
    then show ?thesis by (simp add: addMember_present setFirstRole_idem)
  next
    case False
    then have "uid \<notin> userId ` set (members p)" by (simp add: isMember_iff)
    then have "setFirstRole uid r (members p @ [\<lparr>userId = uid, role = r, joinedAt = t1\<rparr>])
               = members p @ [\<lparr>userId = uid, role = r, joinedAt = t1\<rparr>]"
      by (rule setFirstRole_append_new)
    with False show ?thesis by (simp add: addMember_absent)
  qed
  finally show ?thesis .
qed

lemma uniqueMembers_addMember: "uniqueMembers p \<Longrightarrow> uniqueMembers (addMember p uid r now)"
  by (cases "isMember p uid")
     (auto simp: addMember_present addMember_absent uniqueMembers_def isMember_iff
                 map_userId_setFirstRole)

lemma uniqueMembers_no_members: "members p = [] \<Longrightarrow> uniqueMembers p"
  by (simp add: uniqueMembers_def)

lemma uniqueMembers_removeMember: "uniqueMembers p \<Longrightarrow> uniqueMembers (removeMember p uid)"
  by (simp add: uniqueMembers_def removeMember_def distinct_map_filter)

lemma setFirstRole_split:
  "uid \<in> userId ` set ms \<Longrightarrow>
   \<exists>ms1 m ms2. ms = ms1 @ m # ms2 \<and> userId m = uid \<and> uid \<notin> userId ` set ms1
      \<and> setFirstRole uid r ms = ms1 @ m\<lparr>role := r\<rparr> # ms2"
proof (induction ms)
  case Nil
  then show ?case by simp
next
  case (Cons a ms)
  show ?case
  proof (cases "userId a = uid")
    case True
    then have "a # ms = [] @ a # ms \<and> userId a = uid \<and> uid \<notin> userId ` set []
      \<and> setFirstRole uid r (a # ms) = [] @ a\<lparr>role := r\<rparr> # ms"
      by simp
    then show ?thesis by blast
  next
    case False
    with Cons.prems have "uid \<in> userId ` set ms" by auto
    from Cons.IH [OF this] obtain ms1 m ms2 where
      h: "ms = ms1 @ m # ms2" "userId m = uid" "uid \<notin> userId ` set ms1"
         "setFirstRole uid r ms = ms1 @ m\<lparr>role := r\<rparr> # ms2"
      by blast
    with False have "a # ms = (a # ms1) @ m # ms2 \<and> userId m = uid
      \<and> uid \<notin> userId ` set (a # ms1)
      \<and> setFirstRole uid r (a # ms) = (a # ms1) @ m\<lparr>role := r\<rparr> # ms2"
      by auto
    then show ?thesis by blast
  qed
qed

section \<open>Membership queries\<close>

text \<open>
  C1. The spec states that \<^verbatim>\<open>isMember(P, U)\<close> is true iff U is the owner of P or U appears
  in the member list of P. The method of the source looks at the member list only: for the
  owner of the project that \<^verbatim>\<open>createProject\<close> has just stored it answers false, while
  the sibling method \<^verbatim>\<open>canManage\<close> of the same file answers true for the same user
  through its check of the owner reference.
\<close>

theorem isMember_owner_not_listed:
  "ProjectService_createProject dbEmpty 1 dataNew 7 =
     Inr (projectNew,
          \<lparr>users = [7], projects = [projectNew], tasks = [],
           activityLogs = [\<lparr>action = ''project.created'', entityId = 1,
                            log_userId = 1, log_projectId = 1\<rparr>]\<rparr>)
   \<and> ownerId projectNew = 7 \<and> isMember projectNew 7 = False
   \<and> canManage projectNew 7 = True"
  by (simp add: ProjectService_createProject_def Project_findById_def logActivity_def
        dbEmpty_def dataNew_def projectNew_def isMember_def canManage_def Let_def)

text \<open>
  C3. The spec states that \<^verbatim>\<open>getMemberRole\<close> returns the role owner for the owner of the
  project even when the owner is absent from the member list. The method of the source
  returns null for the owner of a project whose member list is empty; for a listed user it
  returns the stored role, and null for a user who is not listed.
\<close>

theorem getMemberRole_owner_not_listed:
  "ownerId projectNew = 7 \<and> getMemberRole projectNew 7 = None
   \<and> getMemberRole projectA 3 = Some ''member'' \<and> getMemberRole projectA 9 = None"
  by (simp add: projectNew_def projectA_def getMemberRole_def)

section \<open>Adding a member\<close>

text \<open>
  C6. \<^verbatim>\<open>addMember\<close> is an idempotent upsert. When the user is in the member list, the
  role of the user's first entry is overwritten in place and every other entry and field
  stays as it was; otherwise one entry with the role and \<^verbatim>\<open>joinedAt = now\<close> is
  appended. A second call with the same user and role changes nothing. On a project that
  satisfies the data model's invariant (one entry per user at most) the list holds, after
  the two calls, exactly one entry of the user, with that role.
\<close>

theorem addMember_idempotent_upsert:
  "(isMember p uid \<longrightarrow>
      (\<exists>ms1 m ms2. members p = ms1 @ m # ms2 \<and> userId m = uid
          \<and> uid \<notin> userId ` set ms1
          \<and> addMember p uid r now = p\<lparr>members := ms1 @ m\<lparr>role := r\<rparr> # ms2\<rparr>))
   \<and> (\<not> isMember p uid \<longrightarrow>
        addMember p uid r now =
          p\<lparr>members := members p @ [\<lparr>userId = uid, role = r, joinedAt = now\<rparr>]\<rparr>)
   \<and> addMember (addMember p uid r now) uid r later = addMember p uid r now
   \<and> (uniqueMembers p \<longrightarrow>
        (\<exists>m. entriesOf (addMember (addMember p uid r now) uid r later) uid = [m]
             \<and> userId m = uid \<and> role m = r))"
proof -
  have a: "\<exists>ms1 m ms2. members p = ms1 @ m # ms2 \<and> userId m = uid
          \<and> uid \<notin> userId ` set ms1
          \<and> addMember p uid r now = p\<lparr>members := ms1 @ m\<lparr>role := r\<rparr> # ms2\<rparr>"
    if m: "isMember p uid"
  proof -
    from m have "uid \<in> userId ` set (members p)" by (simp add: isMember_iff)
    from setFirstRole_split [OF this, of r] obtain ms1 x ms2 where
      h: "members p = ms1 @ x # ms2" "userId x = uid" "uid \<notin> userId ` set ms1"
         "setFirstRole uid r (members p) = ms1 @ x\<lparr>role := r\<rparr> # ms2"
      by blast
    from m h(4) have "addMember p uid r now = p\<lparr>members := ms1 @ x\<lparr>role := r\<rparr> # ms2\<rparr>"
      by (simp add: addMember_present)
    with h(1-3) show ?thesis by blast
  qed
  have b: "\<not> isMember p uid \<longrightarrow>
            addMember p uid r now =
              p\<lparr>members := members p @ [\<lparr>userId = uid, role = r, joinedAt = now\<rparr>]\<rparr>"
    by (simp add: addMember_absent)
  have c: "addMember (addMember p uid r now) uid r later = addMember p uid r now"
    by (rule addMember_twice)
  let ?q = "addMember p uid r now"
  have e: "\<exists>m. entriesOf (addMember ?q uid r later) uid = [m] \<and> userId m = uid \<and> role m = r"
    if u: "uniqueMembers p"
  proof -
    from u have d: "distinct (map userId (members p))" by (simp add: uniqueMembers_def)
    have "\<exists>m. filter (\<lambda>m. userId m = uid) (members ?q) = [m] \<and> role m = r"
    proof (cases "isMember p uid")
      case True
      then have "uid \<in> userId ` set (members p)" by (simp add: isMember_iff)
      from filter_setFirstRole_distinct [OF d this, of r] True
      show ?thesis by (simp add: addMember_present)
    next
      case False
      then have "uid \<notin> userId ` set (members p)" by (simp add: isMember_iff)
      then have "filter (\<lambda>m. userId m = uid) (members p) = []"
        by (auto simp: filter_empty_conv)
      with False show ?thesis by (simp add: addMember_absent)
    qed
    then obtain m where m: "filter (\<lambda>m. userId m = uid) (members ?q) = [m]" "role m = r"
      by blast
    then have "m \<in> set (filter (\<lambda>m. userId m = uid) (members ?q))" by simp
    then have "userId m = uid" by simp
    with m c show ?thesis by (simp add: entriesOf_def)
  qed
  from a b c e show ?thesis by blast
qed

theorem addMember_idempotent_upsert_witness:
  "uniqueMembers project0
   \<and> isMember project0 2
   \<and> addMember project0 2 ''admin'' 9 =
       project0\<lparr>members := [\<lparr>userId = 2, role = ''admin'', joinedAt = 5\<rparr>]\<rparr>
   \<and> \<not> isMember project0 3
   \<and> addMember project0 3 ''viewer'' 9 =
       project0\<lparr>members := [\<lparr>userId = 2, role = ''member'', joinedAt = 5\<rparr>,
                             \<lparr>userId = 3, role = ''viewer'', joinedAt = 9\<rparr>]\<rparr>
   \<and> entriesOf (addMember (addMember project0 3 ''viewer'' 9) 3 ''viewer'' 10) 3 =
       [\<lparr>userId = 3, role = ''viewer'', joinedAt = 9\<rparr>]"
proof -
  have u: "uniqueMembers project0" by (simp add: uniqueMembers_def project0_def)
  have m2: "isMember project0 2" by (simp add: isMember_def project0_def)
  have m3: "\<not> isMember project0 3" by (simp add: isMember_def project0_def)
  note t2 = addMember_idempotent_upsert [of project0 2 "''admin''" 9 10]
  note t3 = addMember_idempotent_upsert [of project0 3 "''viewer''" 9 10]
  from t2 m2 obtain ms1 m ms2 where
    s: "members project0 = ms1 @ m # ms2" "userId m = 2"
       "addMember project0 2 ''admin'' 9 = project0\<lparr>members := ms1 @ m\<lparr>role := ''admin''\<rparr> # ms2\<rparr>"
    by blast
  from s(1) have "ms1 = [] \<and> m = \<lparr>userId = 2, role = ''member'', joinedAt = 5\<rparr> \<and> ms2 = []"
    by (cases ms1) (simp_all add: project0_def)
  with s(3) have a: "addMember project0 2 ''admin'' 9 =
       project0\<lparr>members := [\<lparr>userId = 2, role = ''admin'', joinedAt = 5\<rparr>]\<rparr>"
    by simp
  from t3 m3 have "addMember project0 3 ''viewer'' 9 =
      project0\<lparr>members := members project0 @ [\<lparr>userId = 3, role = ''viewer'', joinedAt = 9\<rparr>]\<rparr>"
    by blast
  then have b: "addMember project0 3 ''viewer'' 9 =
       project0\<lparr>members := [\<lparr>userId = 2, role = ''member'', joinedAt = 5\<rparr>,
                             \<lparr>userId = 3, role = ''viewer'', joinedAt = 9\<rparr>]\<rparr>"
    by (simp add: project0_def)
  from t3 have c: "addMember (addMember project0 3 ''viewer'' 9) 3 ''viewer'' 10 =
      addMember project0 3 ''viewer'' 9"
    by blast
  from t3 u have "\<exists>m. entriesOf (addMember (addMember project0 3 ''viewer'' 9) 3 ''viewer'' 10) 3 = [m]
      \<and> userId m = 3 \<and> role m = ''viewer''"
    by blast
  have "entriesOf (addMember (addMember project0 3 ''viewer'' 9) 3 ''viewer'' 10) 3 =
        entriesOf (addMember project0 3 ''viewer'' 9) 3"
    by (simp only: c)
  also have "\<dots> = [\<lparr>userId = 3, role = ''viewer'', joinedAt = 9\<rparr>]"
    by (simp add: b entriesOf_def)
  finally have e: "entriesOf (addMember (addMember project0 3 ''viewer'' 9) 3 ''viewer'' 10) 3 =
       [\<lparr>userId = 3, role = ''viewer'', joinedAt = 9\<rparr>]" .
  from u m2 m3 a b e show ?thesis by blast
qed

section \<open>Facts about the collections\<close>

lemma replaceFirst_found: "find P xs = Some x \<Longrightarrow> replaceFirst P x xs = xs"
  by (induction xs) (auto split: if_splits)

lemma find_append_new:
  "find P xs = None \<Longrightarrow> P y \<Longrightarrow> find P (xs @ [y]) = Some y"
  by (induction xs) (auto split: if_splits)

lemma Project_save_found:
  "Project_findById d pid = Some p \<Longrightarrow> Project_save d p = d"
proof -
  assume f: "Project_findById d pid = Some p"
  then have "project_id p = pid"
    by (auto simp: Project_findById_def dest: find_Some_iff [THEN iffD1])
  with f have "find (\<lambda>q. project_id q = project_id p) (projects d) = Some p"
    by (simp add: Project_findById_def)
  then show ?thesis by (simp add: Project_save_def replaceFirst_found)
qed

lemma uniqueMembers_updateMemberRole:
  "uniqueMembers p \<Longrightarrow> uniqueMembers (updateMemberRole p uid newRole)"
  by (simp add: uniqueMembers_def updateMemberRole_def map_userId_setFirstRole
           split: option.split)

lemma updateMemberRole_absent: "\<not> isMember p uid \<Longrightarrow> updateMemberRole p uid newRole = p"
  by (simp add: updateMemberRole_def isMember_iff find_userId_None [symmetric])

section \<open>The capability table\<close>

text \<open>
  C2. For every project, user and capability, \<^verbatim>\<open>hasPermission\<close> holds exactly when the
  user has a role and the table lists the capability for it: owner has canEdit, canDelete,
  canInvite and canManageTasks; admin has canEdit, canInvite and canManageTasks; member has
  canManageTasks; viewer and any other role have none. A user who is not a member has no
  permission.
\<close>

theorem hasPermission_table:
  "(hasPermission p uid c \<longleftrightarrow>
      (\<exists>r. getMemberRole p uid = Some r \<and>
           (r, c) \<in> {(''owner'', canEdit), (''owner'', canDelete), (''owner'', canInvite),
                      (''owner'', canManageTasks),
                      (''admin'', canEdit), (''admin'', canInvite), (''admin'', canManageTasks),
                      (''member'', canManageTasks)}))
   \<and> (\<not> isMember p uid \<longrightarrow> \<not> hasPermission p uid c)"
proof -
  have "\<not> isMember p uid \<longrightarrow> \<not> hasPermission p uid c"
    by (simp add: hasPermission_def getMemberRole_None_iff [symmetric])
  moreover have "hasPermission p uid c \<longleftrightarrow>
      (\<exists>r. getMemberRole p uid = Some r \<and>
           (r, c) \<in> {(''owner'', canEdit), (''owner'', canDelete), (''owner'', canInvite),
                      (''owner'', canManageTasks),
                      (''admin'', canEdit), (''admin'', canInvite), (''admin'', canManageTasks),
                      (''member'', canManageTasks)})"
    by (cases "getMemberRole p uid"; cases c)
       (auto simp: hasPermission_def roleCapabilities_def)
  ultimately show ?thesis by blast
qed

theorem hasPermission_table_witness:
  "\<not> isMember projectA 9 \<and> \<not> hasPermission projectA 9 canManageTasks
   \<and> hasPermission projectA 7 canDelete \<and> \<not> hasPermission projectA 2 canDelete
   \<and> hasPermission projectA 3 canManageTasks \<and> \<not> hasPermission projectA 3 canEdit
   \<and> \<not> hasPermission projectA 4 canManageTasks"
proof -
  have n: "\<not> isMember projectA 9" by (simp add: isMember_def projectA_def)
  from hasPermission_table [of projectA 9 canManageTasks] n
  have "\<not> hasPermission projectA 9 canManageTasks" by blast
  moreover have "hasPermission projectA 7 canDelete"
    using hasPermission_table [of projectA 7 canDelete]
    by (simp add: getMemberRole_def projectA_def)
  moreover have "\<not> hasPermission projectA 2 canDelete"
    using hasPermission_table [of projectA 2 canDelete]
    by (simp add: getMemberRole_def projectA_def)
  moreover have "hasPermission projectA 3 canManageTasks"
    using hasPermission_table [of projectA 3 canManageTasks]
    by (simp add: getMemberRole_def projectA_def)
  moreover have "\<not> hasPermission projectA 3 canEdit"
    using hasPermission_table [of projectA 3 canEdit]
    by (simp add: getMemberRole_def projectA_def)
  moreover have "\<not> hasPermission projectA 4 canManageTasks"
    using hasPermission_table [of projectA 4 canManageTasks]
    by (simp add: getMemberRole_def projectA_def)
  ultimately show ?thesis using n by blast
qed

section \<open>Changing the role of a user who is not a member\<close>

text \<open>
  C8. For a user with no entry in the member list, \<^verbatim>\<open>updateMemberRole\<close> leaves the project
  as it is: no role changes and no entry is created. The service call built on it, made by
  a user who may invite, returns normally and leaves the stored projects and tasks
  unchanged.
\<close>

theorem updateMemberRole_non_member_noop:
  assumes "\<not> isMember p uid"
  shows "updateMemberRole p uid newRole = p
       \<and> (Project_findById d pid = Some p \<and> hasPermission p actor canInvite \<longrightarrow>
            (\<exists>d'. ProjectService_updateMemberRole d pid uid newRole actor = Inr d'
                 \<and> projects d' = projects d \<and> tasks d' = tasks d))"
proof -
  from assms have a: "updateMemberRole p uid newRole = p" by (rule updateMemberRole_absent)
  have "ProjectService_updateMemberRole d pid uid newRole actor =
          Inr (logActivity d \<lparr>action = ''project.member_role_changed'',
                 entityId = project_id p, log_userId = actor, log_projectId = project_id p\<rparr>)"
    if f: "Project_findById d pid = Some p" and h: "hasPermission p actor canInvite"
    using f h a by (simp add: ProjectService_updateMemberRole_def Project_save_found [OF f])
  then show ?thesis using a by (auto simp: logActivity_def)
qed

theorem updateMemberRole_non_member_noop_witness:
  "\<not> isMember projectA 9 \<and> updateMemberRole projectA 9 ''admin'' = projectA
   \<and> Project_findById dbA 10 = Some projectA \<and> hasPermission projectA 2 canInvite
   \<and> (\<exists>d'. ProjectService_updateMemberRole dbA 10 9 ''admin'' 2 = Inr d'
          \<and> projects d' = projects dbA \<and> tasks d' = tasks dbA)"
proof -
  have n: "\<not> isMember projectA 9" by (simp add: isMember_def projectA_def)
  have f: "Project_findById dbA 10 = Some projectA"
    by (simp add: Project_findById_def dbA_def projectA_def)
  have h: "hasPermission projectA 2 canInvite"
    by (simp add: hasPermission_def getMemberRole_def roleCapabilities_def projectA_def)
  from updateMemberRole_non_member_noop [OF n, of "''admin''" dbA 10 2] n f h
  show ?thesis by blast
qed

section \<open>Creating a project\<close>

lemma find_replaceFirst_same:
  "find P xs = Some x \<Longrightarrow> P y \<Longrightarrow> find P (replaceFirst P y xs) = Some y"
  by (induction xs) (auto split: if_splits)

lemma Task_findById_id: "Task_findById d tid = Some t \<Longrightarrow> task_id t = tid"
  by (auto simp: Task_findById_def dest: find_Some_iff [THEN iffD1])

lemma Project_findById_id: "Project_findById d pid = Some p \<Longrightarrow> project_id p = pid"
  by (auto simp: Project_findById_def dest: find_Some_iff [THEN iffD1])

lemma isMember_populated_no_members: "members p = [] \<Longrightarrow> isMember_populated us p uid = Inr False"
  by (simp add: isMember_populated_def)

lemma createProject_Inr:
  assumes "ProjectService_createProject d newId data owner = Inr (p, d')"
  shows "\<exists>k. cp_key data = Some k
           \<and> p = \<lparr>project_id = newId, name = cp_name data, key = k,
                   description = cp_description data, ownerId = owner, members = []\<rparr>
           \<and> Project_findById d newId = None
           \<and> d' = logActivity (d\<lparr>projects := projects d @ [p]\<rparr>)
                     \<lparr>action = ''project.created'', entityId = newId,
                      log_userId = newId, log_projectId = newId\<rparr>"
  using assms
  by (auto simp: ProjectService_createProject_def Let_def split: option.splits if_splits)

lemma createProject_success:
  assumes "cp_name data \<noteq> []" "cp_key data = Some k" "k \<noteq> []"
    "Project_findById d newId = None" "k \<notin> key ` set (projects d)"
  shows "\<exists>p d'. ProjectService_createProject d newId data owner = Inr (p, d')"
  using assms by (auto simp: ProjectService_createProject_def Let_def list_ex_iff)

text \<open>
  C10. \<^verbatim>\<open>createProject\<close> stores the owner reference and does not put the creator into
  the member list. A request without a key is rejected by the validation of the schema; a
  request with a name and an unused key and id succeeds. Whenever the call succeeds, the
  created project has the caller as its owner and an empty member list and is stored under
  its id; \<^verbatim>\<open>isMember\<close> is false on it for the owner, and \<^verbatim>\<open>getProjectById\<close> called by
  the owner fails with ACCESS_DENIED.
\<close>

theorem createProject_owner_not_member:
  "(cp_key data = None \<longrightarrow>
      ProjectService_createProject d newId data owner = Inl VALIDATION_ERROR)
   \<and> (cp_name data \<noteq> [] \<and> cp_key data = Some k \<and> k \<noteq> []
        \<and> Project_findById d newId = None \<and> k \<notin> key ` set (projects d)
      \<longrightarrow> (\<exists>q e. ProjectService_createProject d newId data owner = Inr (q, e)))
   \<and> (ProjectService_createProject d newId data owner = Inr (p, d')
      \<longrightarrow> ownerId p = owner \<and> members p = [] \<and> projects d' = projects d @ [p]
        \<and> Project_findById d' newId = Some p
        \<and> \<not> isMember p owner
        \<and> ProjectService_getProjectById d' newId owner = Inl ACCESS_DENIED)"
proof -
  have a: "cp_key data = None \<longrightarrow>
      ProjectService_createProject d newId data owner = Inl VALIDATION_ERROR"
    by (simp add: ProjectService_createProject_def)
  have b: "cp_name data \<noteq> [] \<and> cp_key data = Some k \<and> k \<noteq> []
        \<and> Project_findById d newId = None \<and> k \<notin> key ` set (projects d)
      \<longrightarrow> (\<exists>q e. ProjectService_createProject d newId data owner = Inr (q, e))"
    using createProject_success [of data k d newId owner] by blast
  have c: "ownerId p = owner \<and> members p = [] \<and> projects d' = projects d @ [p]
        \<and> Project_findById d' newId = Some p
        \<and> \<not> isMember p owner
        \<and> ProjectService_getProjectById d' newId owner = Inl ACCESS_DENIED"
    if r: "ProjectService_createProject d newId data owner = Inr (p, d')"
  proof -
    from createProject_Inr [OF r] obtain k' where
      p: "p = \<lparr>project_id = newId, name = cp_name data, key = k',
                   description = cp_description data, ownerId = owner, members = []\<rparr>"
      and n: "Project_findById d newId = None"
      and d': "d' = logActivity (d\<lparr>projects := projects d @ [p]\<rparr>)
                     \<lparr>action = ''project.created'', entityId = newId,
                      log_userId = newId, log_projectId = newId\<rparr>"
      by blast
    from p have o: "ownerId p = owner" and m: "members p = []" and i: "project_id p = newId"
      by simp_all
    have ps: "projects d' = projects d @ [p]" by (simp add: d' logActivity_def)
    from n i have f: "Project_findById d' newId = Some p"
      by (simp add: Project_findById_def ps find_append_new)
    from m have nm: "\<not> isMember p owner" by (simp add: isMember_def)
    from f m have g: "ProjectService_getProjectById d' newId owner = Inl ACCESS_DENIED"
      by (simp add: ProjectService_getProjectById_def isMember_populated_no_members)
    from o m ps f nm g show ?thesis by blast
  qed
  from a b c show ?thesis by blast
qed

theorem createProject_owner_not_member_witness:
  "ProjectService_createProject dbEmpty 1 (dataNew\<lparr>cp_key := None\<rparr>) 7 = Inl VALIDATION_ERROR
   \<and> Project_findById dbEmpty 1 = None
   \<and> (\<exists>d'. ProjectService_createProject dbEmpty 1 dataNew 7 = Inr (projectNew, d')
          \<and> ownerId projectNew = 7 \<and> members projectNew = []
          \<and> projects d' = [projectNew]
          \<and> Project_findById d' 1 = Some projectNew
          \<and> \<not> isMember projectNew 7
          \<and> ProjectService_getProjectById d' 1 7 = Inl ACCESS_DENIED)"
proof -
  have f: "Project_findById dbEmpty 1 = None"
    by (simp add: Project_findById_def dbEmpty_def)
  have v: "ProjectService_createProject dbEmpty 1 (dataNew\<lparr>cp_key := None\<rparr>) 7 = Inl VALIDATION_ERROR"
    using createProject_owner_not_member [of "dataNew\<lparr>cp_key := None\<rparr>" dbEmpty 1 7]
    by simp
  have h: "cp_name dataNew \<noteq> [] \<and> cp_key dataNew = Some ''APOLLO'' \<and> ''APOLLO'' \<noteq> []
        \<and> Project_findById dbEmpty 1 = None \<and> ''APOLLO'' \<notin> key ` set (projects dbEmpty)"
    using f by (simp add: dataNew_def dbEmpty_def)
  with createProject_owner_not_member [of dataNew dbEmpty 1 7 "''APOLLO''"]
  obtain q e where r: "ProjectService_createProject dbEmpty 1 dataNew 7 = Inr (q, e)"
    by blast
  then have q: "q = projectNew"
    by (auto dest!: createProject_Inr simp: dataNew_def projectNew_def)
  from r q createProject_owner_not_member [of dataNew dbEmpty 1 7 "''APOLLO''" projectNew e]
  have "ownerId projectNew = 7 \<and> members projectNew = []
          \<and> projects e = projects dbEmpty @ [projectNew]
          \<and> Project_findById e 1 = Some projectNew
          \<and> \<not> isMember projectNew 7
          \<and> ProjectService_getProjectById e 1 7 = Inl ACCESS_DENIED"
    by blast
  moreover have "projects dbEmpty = []" by (simp add: dbEmpty_def)
  ultimately show ?thesis using f v r q by auto
qed

section \<open>The assignee of a task\<close>

lemma not_isMember_removeMember: "\<not> isMember (removeMember p uid) uid"
  by (auto simp: isMember_iff removeMember_def)


lemma removeMember_service_Inr:
  assumes "ProjectService_removeMember d pid w actor = Inr d'"
  shows "\<exists>p. Project_findById d pid = Some p \<and> hasPermission p actor canInvite
           \<and> d' = logActivity (Project_save d (removeMember p w))
                     \<lparr>action = ''project.member_removed'', entityId = pid,
                      log_userId = actor, log_projectId = pid\<rparr>"
  using assms
  by (auto simp: ProjectService_removeMember_def Let_def removeMember_def
           dest: Project_findById_id split: option.splits if_splits)

lemma removeMember_dbA:
  "ProjectService_removeMember dbA 10 3 2 =
     Inr \<lparr>users = [2, 3, 4, 7, 9],
          projects = [projectA\<lparr>members := [\<lparr>userId = 7, role = ''owner'', joinedAt = 1\<rparr>,
                                           \<lparr>userId = 2, role = ''admin'', joinedAt = 2\<rparr>,
                                           \<lparr>userId = 4, role = ''viewer'', joinedAt = 4\<rparr>]\<rparr>],
          tasks = [taskA, taskB, taskC],
          activityLogs = [\<lparr>action = ''project.member_removed'', entityId = 10,
                           log_userId = 2, log_projectId = 10\<rparr>]\<rparr>"
  by (simp add: ProjectService_removeMember_def Project_findById_def Project_save_def
        logActivity_def hasPermission_def getMemberRole_def roleCapabilities_def
        removeMember_def dbA_def projectA_def Let_def)

text \<open>
  C9. \<^verbatim>\<open>createTask\<close> by a member, with an assignee who has no entry in the member list of
  the project, fails with INVALID_ASSIGNEE. A successful \<^verbatim>\<open>removeMember\<close> of a user
  leaves the task collection as it was, so a task assigned to that user keeps its
  \<^verbatim>\<open>assigneeId\<close>, while the stored project no longer has the user as a member.
\<close>

theorem createTask_invalid_assignee:
  "(Project_findById d (ct_projectId data) = Some p \<and> isMember p creator
      \<and> ct_assigneeId data = Some w \<and> \<not> isMember p w
      \<longrightarrow> TaskService_createTask d newId data creator = Inl INVALID_ASSIGNEE)
   \<and> (ProjectService_removeMember d pid w actor = Inr d'
      \<longrightarrow> tasks d' = tasks d
        \<and> (\<forall>tid. Task_findById d' tid = Task_findById d tid)
        \<and> (\<exists>p'. Project_findById d' pid = Some p' \<and> \<not> isMember p' w))"
proof -
  have a: "TaskService_createTask d newId data creator = Inl INVALID_ASSIGNEE"
    if "Project_findById d (ct_projectId data) = Some p" "isMember p creator"
       "ct_assigneeId data = Some w" "\<not> isMember p w"
    using that by (simp add: TaskService_createTask_def)
  have b: "tasks d' = tasks d \<and> (\<forall>tid. Task_findById d' tid = Task_findById d tid)
        \<and> (\<exists>p'. Project_findById d' pid = Some p' \<and> \<not> isMember p' w)"
    if r: "ProjectService_removeMember d pid w actor = Inr d'"
  proof -
    from removeMember_service_Inr [OF r] obtain p0 where
      f: "Project_findById d pid = Some p0"
      and d': "d' = logActivity (Project_save d (removeMember p0 w))
                     \<lparr>action = ''project.member_removed'', entityId = pid,
                      log_userId = actor, log_projectId = pid\<rparr>"
      by blast
    from f have id: "project_id p0 = pid" by (rule Project_findById_id)
    have t: "tasks d' = tasks d" by (simp add: d' logActivity_def Project_save_def)
    then have t': "\<forall>tid. Task_findById d' tid = Task_findById d tid"
      by (simp add: Task_findById_def)
    have ps: "projects d' =
        replaceFirst (\<lambda>q. project_id q = pid) (removeMember p0 w) (projects d)"
      by (simp add: d' logActivity_def Project_save_def removeMember_def id)
    from f have "find (\<lambda>q. project_id q = pid) (projects d) = Some p0"
      by (simp add: Project_findById_def)
    then have "find (\<lambda>q. project_id q = pid) (projects d') = Some (removeMember p0 w)"
      unfolding ps by (rule find_replaceFirst_same) (simp add: removeMember_def id)
    then have "Project_findById d' pid = Some (removeMember p0 w)"
      by (simp add: Project_findById_def)
    with t t' not_isMember_removeMember [of p0 w] show ?thesis by blast
  qed
  from a b show ?thesis by blast
qed

theorem createTask_invalid_assignee_witness:
  "Project_findById dbA 10 = Some projectA \<and> isMember projectA 3 \<and> \<not> isMember projectA 9
   \<and> TaskService_createTask dbA 103 \<lparr>ct_title = ''E'', ct_projectId = 10, ct_assigneeId = Some 9\<rparr> 3
        = Inl INVALID_ASSIGNEE
   \<and> assigneeId taskA = Some 3
   \<and> (\<exists>d'. ProjectService_removeMember dbA 10 3 2 = Inr d'
          \<and> Task_findById d' 100 = Some taskA
          \<and> (\<exists>p'. Project_findById d' 10 = Some p' \<and> \<not> isMember p' 3))"
proof -
  let ?data = "\<lparr>ct_title = ''E'', ct_projectId = 10, ct_assigneeId = Some 9\<rparr>"
  have f: "Project_findById dbA 10 = Some projectA"
    by (simp add: Project_findById_def dbA_def projectA_def)
  have m: "isMember projectA 3" and n: "\<not> isMember projectA 9"
    by (simp_all add: isMember_def projectA_def)
  have "Project_findById dbA (ct_projectId ?data) = Some projectA \<and> isMember projectA 3
      \<and> ct_assigneeId ?data = Some 9 \<and> \<not> isMember projectA 9"
    using f m n by simp
  with createTask_invalid_assignee [of dbA ?data projectA 3 9 103]
  have a: "TaskService_createTask dbA 103 ?data 3 = Inl INVALID_ASSIGNEE" by blast
  have t: "Task_findById dbA 100 = Some taskA"
    by (simp add: Task_findById_def dbA_def taskA_def)
  have s: "assigneeId taskA = Some 3" by (simp add: taskA_def)
  from removeMember_dbA obtain d' where r: "ProjectService_removeMember dbA 10 3 2 = Inr d'"
    by blast
  with createTask_invalid_assignee [of dbA ?data projectA 3 3 103 10 2 d']
  have "(\<forall>tid. Task_findById d' tid = Task_findById dbA tid)
        \<and> (\<exists>p'. Project_findById d' 10 = Some p' \<and> \<not> isMember p' 3)"
    by blast
  with t r have "\<exists>d'. ProjectService_removeMember dbA 10 3 2 = Inr d'
          \<and> Task_findById d' 100 = Some taskA
          \<and> (\<exists>p'. Project_findById d' 10 = Some p' \<and> \<not> isMember p' 3)"
    by auto
  with f m n a s show ?thesis by blast
qed

section \<open>The position of a new task\<close>

lemma createTask_never_Inr: "TaskService_createTask d newId data creator \<noteq> Inr r"
  by (simp add: TaskService_createTask_def Task_new_def asDocument_def Task_validate_def
        Let_def split: option.splits)

lemma createTask_dbB: "TaskService_createTask dbB 203 dataH 3 = Inl VALIDATION_ERROR"
  by (simp add: TaskService_createTask_def Task_new_def asDocument_def Task_validate_def
        Project_findById_def isMember_def dbB_def projectB_def dataH_def Let_def)

text \<open>
  C4. The spec states that a created task gets the position one above the greatest
  position among the tasks of its project. In a project with three tasks, for a member as
  the caller, the source computes NaN as the next position, builds a document that has
  neither a position nor a creator, and fails at \<^verbatim>\<open>save()\<close> with a validation error: no
  task is created. No call of \<^verbatim>\<open>createTask\<close> returns a task.
\<close>

theorem createTask_stores_no_position:
  "Project_findById dbB 20 = Some projectB \<and> isMember projectB 3
   \<and> map task_id (filter (\<lambda>t. projectId t = 20) (tasks dbB)) = [200, 201, 202]
   \<and> map order (tasks dbB) = [0, 1, 2]
   \<and> nextPosition dbB 20 = NaN
   \<and> paths (Task_new 203 dataH 3 (nextPosition dbB 20)) =
        \<lparr>task_id = 203, projectId = 20, title = ''H'', status = ''backlog'',
         priority = ''Medium'', assigneeId = None, creatorId = None, order = 0,
         isArchived = False\<rparr>
   \<and> position (Task_new 203 dataH 3 (nextPosition dbB 20)) = None
   \<and> TaskService_createTask dbB 203 dataH 3 = Inl VALIDATION_ERROR
   \<and> (\<forall>d newId data creator. \<exists>e. TaskService_createTask d newId data creator = Inl e)"
proof -
  have a: "Project_findById dbB 20 = Some projectB"
    by (simp add: Project_findById_def dbB_def projectB_def)
  have b: "isMember projectB 3" by (simp add: isMember_def projectB_def)
  have c: "map task_id (filter (\<lambda>t. projectId t = 20) (tasks dbB)) = [200, 201, 202]"
    by (simp add: dbB_def taskE_def taskF_def taskG_def)
  have o: "map order (tasks dbB) = [0, 1, 2]"
    by (simp add: dbB_def taskE_def taskF_def taskG_def)
  have e: "nextPosition dbB 20 = NaN"
    by (simp add: nextPosition_def Task_findOne_sortedByPosition_def dbB_def taskE_def)
  have f: "paths (Task_new 203 dataH 3 (nextPosition dbB 20)) =
        \<lparr>task_id = 203, projectId = 20, title = ''H'', status = ''backlog'',
         priority = ''Medium'', assigneeId = None, creatorId = None, order = 0,
         isArchived = False\<rparr>"
    "position (Task_new 203 dataH 3 (nextPosition dbB 20)) = None"
    by (simp_all add: Task_new_def asDocument_def dataH_def)
  have g: "\<exists>e. TaskService_createTask d newId data creator = Inl e" for d newId data creator
    using createTask_never_Inr [of d newId data creator]
    by (cases "TaskService_createTask d newId data creator") auto
  from a b c o e f createTask_dbB g show ?thesis by blast
qed

section \<open>Moving a task\<close>

lemma updateTaskPosition_Inr:
  assumes "TaskService_updateTaskPosition d tid n uid = Inr d'"
  shows "\<exists>t p. Task_findById d tid = Some t \<and> Project_findById d (projectId t) = Some p
           \<and> isMember p uid \<and> Task_validate t
           \<and> d' = logActivity d
                     \<lparr>action = ''task.position_changed'', entityId = tid,
                      log_userId = uid, log_projectId = projectId t\<rparr>"
proof -
  from assms obtain t p where
    t: "Task_findById d tid = Some t" and p: "Project_findById d (projectId t) = Some p"
    and m: "isMember p uid" and v: "Task_validate t"
    and d': "d' = logActivity (Task_save d ((asDocument t)\<lparr>position := Some (Number n)\<rparr>))
                     \<lparr>action = ''task.position_changed'', entityId = task_id t,
                      log_userId = uid, log_projectId = projectId t\<rparr>"
    by (auto simp: TaskService_updateTaskPosition_def Let_def asDocument_def
             split: option.splits if_splits)
  from t have i: "task_id t = tid" by (rule Task_findById_id)
  from t i have "find (\<lambda>q. task_id q = task_id t) (tasks d) = Some t"
    by (simp add: Task_findById_def)
  then have "Task_save d ((asDocument t)\<lparr>position := Some (Number n)\<rparr>) = d"
    by (simp add: Task_save_def asDocument_def replaceFirst_found)
  with t p m v d' i show ?thesis by simp
qed

lemma updateTaskPosition_stores_nothing:
  "TaskService_updateTaskPosition d tid n uid = Inr d' \<Longrightarrow>
   tasks d' = tasks d \<and> projects d' = projects d \<and> users d' = users d"
  by (auto dest!: updateTaskPosition_Inr simp: logActivity_def)

lemma updateTaskPosition_dbB:
  "TaskService_updateTaskPosition dbB 200 2 3 =
     Inr (dbB\<lparr>activityLogs := [\<lparr>action = ''task.position_changed'', entityId = 200,
                                 log_userId = 3, log_projectId = 20\<rparr>]\<rparr>)"
  by (simp add: TaskService_updateTaskPosition_def Project_findById_def Task_findById_def
        Task_save_def Task_validate_def asDocument_def logActivity_def isMember_def dbB_def
        projectB_def taskE_def taskF_def taskG_def Let_def)

text \<open>
  C5. The spec states that \<^verbatim>\<open>updateTaskPosition(T, p)\<close> stores \<open>p\<close> as the position of
  T. The call of a member on a stored task returns normally and appends its entry to the
  activity log, but the task collection is as it was: the stored task is unchanged and
  has no position.
\<close>

theorem updateTaskPosition_not_stored:
  "Task_findById dbB 200 = Some taskE \<and> order taskE = 0
   \<and> TaskService_updateTaskPosition dbB 200 2 3 =
        Inr (dbB\<lparr>activityLogs := [\<lparr>action = ''task.position_changed'', entityId = 200,
                                    log_userId = 3, log_projectId = 20\<rparr>]\<rparr>)
   \<and> tasks (dbB\<lparr>activityLogs := [\<lparr>action = ''task.position_changed'', entityId = 200,
                                    log_userId = 3, log_projectId = 20\<rparr>]\<rparr>) = tasks dbB
   \<and> Task_findById (dbB\<lparr>activityLogs := [\<lparr>action = ''task.position_changed'',
                                             entityId = 200, log_userId = 3,
                                             log_projectId = 20\<rparr>]\<rparr>) 200 = Some taskE
   \<and> position (asDocument taskE) = None"
  using updateTaskPosition_dbB
  by (simp add: Task_findById_def asDocument_def dbB_def taskE_def)

section \<open>The order of the checks in the services\<close>

lemma project_ops_never_access_denied:
  "ProjectService_updateProject d pid pdata uid \<noteq> Inl ACCESS_DENIED
   \<and> ProjectService_deleteProject d pid uid \<noteq> Inl ACCESS_DENIED
   \<and> ProjectService_addMember d pid mdata uid now \<noteq> Inl ACCESS_DENIED
   \<and> ProjectService_removeMember d pid muid uid \<noteq> Inl ACCESS_DENIED
   \<and> ProjectService_updateMemberRole d pid muid newRole uid \<noteq> Inl ACCESS_DENIED"
  by (simp add: ProjectService_updateProject_def ProjectService_deleteProject_def
        ProjectService_addMember_def ProjectService_removeMember_def
        ProjectService_updateMemberRole_def Let_def split: option.splits)


end
